theory Spec2Isabelle
  imports Complex_Main
begin

section \<open>JavaScript values used by the relay and the client\<close>

text \<open>
  A JavaScript string is modelled as a \<^typ>\<open>string\<close>; each character stands for one
  UTF-16 code unit, so \<open>length\<close> is \<open>.length\<close> and \<open>take 50\<close> is \<open>.slice(0, 50)\<close>.
  An optional field or variable (\<open>string | undefined\<close>) is a \<^typ>\<open>string option\<close>.
  The awaited platform calls \<open>req.json()\<close> and \<open>auth.getUser()\<close> are taken to
  return well-typed values; the outcomes of \<open>fetch\<close>, of \<open>response.json()\<close> and of
  the three inserts are inputs of the model.
\<close>

text \<open>Truthiness of an optional string: \<open>undefined\<close> and \<open>''\<close> are falsy.\<close>

definition truthy :: "string option \<Rightarrow> bool" where
  "truthy v = (case v of None \<Rightarrow> False | Some s \<Rightarrow> s \<noteq> [])"

text \<open>\<open>a || b\<close> where \<open>b\<close> is a string.\<close>

definition js_or :: "string option \<Rightarrow> string \<Rightarrow> string" where
  "js_or a b = (case a of None \<Rightarrow> b | Some s \<Rightarrow> if s \<noteq> [] then s else b)"

text \<open>\<open>a + '...'\<close> converts \<open>undefined\<close> to the text \<open>undefined\<close>.\<close>

definition to_string :: "string option \<Rightarrow> string" where
  "to_string v = (case v of None \<Rightarrow> ''undefined'' | Some s \<Rightarrow> s)"

text \<open>\<open>s.includes(sub)\<close>: \<open>sub\<close> occurs in \<open>s\<close> as a contiguous block.\<close>

fun str_includes :: "string \<Rightarrow> string \<Rightarrow> bool" where
  "str_includes [] sub = (sub = [])"
| "str_includes (c # cs) sub = (take (length sub) (c # cs) = sub \<or> str_includes cs sub)"

text \<open>
  \<open>s.trim()\<close> removes white space and line terminators at both ends. Of the code
  units that \<open>trim\<close> removes, those that fit a \<^typ>\<open>char\<close> are TAB, LF, VT, FF, CR,
  SPACE and NBSP.
\<close>

definition is_space :: "char \<Rightarrow> bool" where
  "is_space c = (of_char c \<in> {9, 10, 11, 12, 13, 32, 160 :: nat})"

definition trim :: "string \<Rightarrow> string" where
  "trim s = rev (dropWhile is_space (rev (dropWhile is_space s)))"

text \<open>Decimal rendering of a non-negative integer, as a template literal does it.\<close>

definition digit_char :: "nat \<Rightarrow> char" where
  "digit_char d = ''0123456789'' ! d"

fun show_nat :: "nat \<Rightarrow> string" where
  "show_nat n = (if n < 10 then [digit_char n] else show_nat (n div 10) @ [digit_char (n mod 10)])"

declare show_nat.simps [simp del]

text \<open>An exception value: \<open>error.name\<close> and \<open>error.message\<close>.\<close>

record js_error =
  name :: string
  message :: string

definition Error :: "string \<Rightarrow> js_error" where
  "Error m = \<lparr>name = ''Error'', message = m\<rparr>"

definition TypeError :: "string \<Rightarrow> js_error" where
  "TypeError m = \<lparr>name = ''TypeError'', message = m\<rparr>"

definition SyntaxError :: "string \<Rightarrow> js_error" where
  "SyntaxError m = \<lparr>name = ''SyntaxError'', message = m\<rparr>"

text \<open>
  A value produced by \<open>JSON.parse\<close>. An object is the list of its own properties, each
  key once. A value read in the handler is a \<open>json option\<close>, with \<open>None\<close> for
  \<open>undefined\<close>.
\<close>

datatype json =
  JNull
| JBool bool
| JNumber real
| JString string
| JArray "json list"
| JObject "(string \<times> json) list"

text \<open>\<open>!v\<close> is false exactly for the truthy values.\<close>

fun json_truthy :: "json option \<Rightarrow> bool" where
  "json_truthy None = False"
| "json_truthy (Some JNull) = False"
| "json_truthy (Some (JBool b)) = b"
| "json_truthy (Some (JNumber n)) = (n \<noteq> 0)"
| "json_truthy (Some (JString s)) = (s \<noteq> [])"
| "json_truthy (Some (JArray xs)) = True"
| "json_truthy (Some (JObject kvs)) = True"

text \<open>
  \<open>v.key\<close> for the keys \<open>choices\<close>, \<open>message\<close> and \<open>content\<close>, which no prototype
  defines: an object gives its own property, every other value gives \<open>undefined\<close>. The
  read throws on \<open>null\<close> and \<open>undefined\<close>; the handler reads from \<open>data\<close>, where the
  model raises the error, and otherwise only from values it has found truthy.
\<close>

fun get_prop :: "json option \<Rightarrow> string \<Rightarrow> json option" where
  "get_prop (Some (JObject kvs)) k = map_of kvs k"
| "get_prop v k = None"

text \<open>\<open>v[0]\<close> on a truthy value: the first element, the first code unit, or the property \<open>0\<close>.\<close>

fun index0 :: "json option \<Rightarrow> json option" where
  "index0 (Some (JArray xs)) = (case xs of [] \<Rightarrow> None | x # rest \<Rightarrow> Some x)"
| "index0 (Some (JString s)) = (case s of [] \<Rightarrow> None | c # rest \<Rightarrow> Some (JString [c]))"
| "index0 (Some (JObject kvs)) = map_of kvs ''0''"
| "index0 v = None"

section \<open>The message relay (supabase/functions/chat-with-ai/index.ts)\<close>

datatype role = User | Assistant

record ChatMessage =
  role :: role
  content :: string

record RequestBody =
  messages :: "ChatMessage list"
  chatId :: "string option"
  title :: "string option"

record request = req_method :: string
  body :: RequestBody

text \<open>
  The outcome of \<open>await response.json()\<close> on a success answer: the promise rejects with
  a SyntaxError of some message (the body is empty or not JSON), or it gives the parsed
  value.
\<close>

datatype body_result =
  JsonRejects string
| JsonValue json

text \<open>
  The outcome of \<open>await fetch(...)\<close>: the promise rejects (with an error whose name is
  \<open>AbortError\<close> when the 25 second timer aborted the call), or it resolves to a
  response with a status and a body. The body of an answer that is not a success is
  read as text and only logged.
\<close>

datatype fetch_result =
  FetchRejects js_error
| HttpResponse nat body_result

text \<open>What the invocation meets outside the request.\<close>

record env =
  auth_user :: "string option"
  AIML_API_KEY :: "string option"
  fetch_outcome :: fetch_result
  chat_insert :: "string option"
  user_message_insert_ok :: bool
  ai_message_insert_ok :: bool

text \<open>
  \<open>auth_user\<close> is \<open>user.id\<close>, or \<open>None\<close> when \<open>getUser\<close> gives no user.
  \<open>chat_insert\<close> is \<open>newChat.id\<close> of the inserted row, or \<open>None\<close> when the insert
  returns \<open>chatError\<close>. The two booleans say whether the insert into \<open>messages\<close>
  returns no error. An insert that returns an error writes nothing.
\<close>

record chat_row =
  chat_id :: string
  user_id :: string
  chat_title :: string

record message_row =
  msg_chat_id :: string
  msg_role :: role
  msg_text :: string

record store =
  chats :: "chat_row list"
  message_rows :: "message_row list"

datatype response_body =
  NoBody
| TextBody string
| JsonReply string string
| JsonError string string

text \<open>
  \<open>JsonReply r c\<close> is \<open>{ response: r, chatId: c }\<close>, \<open>JsonError e d\<close> is
  \<open>{ error: e, details: d }\<close>. A response built without a status has status 200.
\<close>

record response =
  status :: nat
  resp_body :: response_body

text \<open>
  Lines 133 to 135 on \<open>aiResponse\<close>: \<open>aiResponse.trim()\<close> throws when the truthy
  \<open>aiResponse\<close> is not a string.
\<close>

definition check_content :: "json option \<Rightarrow> js_error + string" where
  "check_content aiResponse =
    (if \<not> json_truthy aiResponse then Inl (Error ''Empty AI response'')
     else
       (case aiResponse of
          Some (JString s) \<Rightarrow>
            if length (trim s) = 0 then Inl (Error ''Empty AI response'') else Inr s
        | _ \<Rightarrow> Inl (TypeError ''aiResponse.trim is not a function'')))"

text \<open>
  Lines 127 to 135 on the parsed \<open>data\<close>. Reading \<open>data.choices\<close> throws when \<open>data\<close>
  is \<open>null\<close>.
\<close>

definition validate :: "json \<Rightarrow> js_error + string" where
  "validate data =
    (if data = JNull
     then Inl (TypeError ''Cannot read properties of null (reading 'choices')'')
     else
       (let choices = get_prop (Some data) ''choices'' in
        if \<not> json_truthy choices \<or> \<not> json_truthy (index0 choices)
           \<or> \<not> json_truthy (get_prop (index0 choices) ''message'')
        then Inl (Error ''Invalid AI response format'')
        else check_content (get_prop (get_prop (index0 choices) ''message'') ''content'')))"

definition response_ok :: "nat \<Rightarrow> bool" where
  "response_ok code = (200 \<le> code \<and> code \<le> 299)"

text \<open>Lines 100 to 135: the call, the status check, the parse and the validation.\<close>

definition call_provider :: "fetch_result \<Rightarrow> js_error + string" where
  "call_provider r =
    (case r of
       FetchRejects e \<Rightarrow> Inl e
     | HttpResponse code b \<Rightarrow>
         if \<not> response_ok code
         then Inl (Error (''AI/ML API error: '' @ show_nat code))
         else
           (case b of
              JsonRejects m \<Rightarrow> Inl (SyntaxError m)
            | JsonValue data \<Rightarrow> validate data))"

text \<open>Line 141: \<open>title || messages[0]?.content.slice(0, 50) + '...' || 'New Research Chat'\<close>.\<close>

definition first_content :: "ChatMessage list \<Rightarrow> string option" where
  "first_content ms = (case ms of [] \<Rightarrow> None | m # _ \<Rightarrow> Some (take 50 (content m)))"

definition chatTitle :: "string option \<Rightarrow> ChatMessage list \<Rightarrow> string" where
  "chatTitle t ms =
     js_or (Some (js_or t (to_string (first_content ms) @ ''...''))) ''New Research Chat''"

text \<open>Lines 142 to 156: insert a new chat row and take its id.\<close>

definition create_chat ::
  "env \<Rightarrow> string \<Rightarrow> RequestBody \<Rightarrow> store \<Rightarrow> (js_error + string) \<times> store" where
  "create_chat e uid rb st =
    (case chat_insert e of
       None \<Rightarrow> (Inl (Error ''Failed to create chat''), st)
     | Some new_id \<Rightarrow>
         (Inr new_id,
          st\<lparr>chats := chats st @
            [\<lparr>chat_id = new_id, user_id = uid,
              chat_title = chatTitle (title rb) (messages rb)\<rparr>]\<rparr>))"

text \<open>Lines 138 to 157: reuse the supplied chat id when it is truthy.\<close>

definition resolve_chat ::
  "env \<Rightarrow> string \<Rightarrow> RequestBody \<Rightarrow> store \<Rightarrow> (js_error + string) \<times> store" where
  "resolve_chat e uid rb st =
    (case chatId rb of
       None \<Rightarrow> create_chat e uid rb st
     | Some c \<Rightarrow> if c \<noteq> [] then (Inr c, st) else create_chat e uid rb st)"

definition TypeError_content :: js_error where
  "TypeError_content =
     \<lparr>name = ''TypeError'',
      message = ''Cannot read properties of undefined (reading 'content')''\<rparr>"

definition insert_message :: "string \<Rightarrow> role \<Rightarrow> string \<Rightarrow> store \<Rightarrow> store" where
  "insert_message cid r txt st =
     st\<lparr>message_rows := message_rows st @
       [\<lparr>msg_chat_id = cid, msg_role = r, msg_text = txt\<rparr>]\<rparr>"

text \<open>
  Lines 159 to 191. The argument of the first insert reads
  \<open>messages[messages.length - 1].content\<close>, which throws a TypeError on an empty list
  before the insert is called.
\<close>

definition save_messages ::
  "env \<Rightarrow> RequestBody \<Rightarrow> string \<Rightarrow> string \<Rightarrow> store \<Rightarrow> (js_error + response) \<times> store" where
  "save_messages e rb currentChatId aiResponse st =
    (if messages rb = [] then (Inl TypeError_content, st)
     else if \<not> user_message_insert_ok e
     then (Inl (Error ''Failed to save user message''), st)
     else
       (let st1 = insert_message currentChatId User (content (last (messages rb))) st in
        if \<not> ai_message_insert_ok e
        then (Inl (Error ''Failed to save AI response''), st1)
        else
          (Inr \<lparr>status = 200, resp_body = JsonReply aiResponse currentChatId\<rparr>,
           insert_message currentChatId Assistant aiResponse st1)))"

text \<open>The body of the \<open>try\<close> block, lines 27 to 191.\<close>

definition try_block :: "env \<Rightarrow> request \<Rightarrow> store \<Rightarrow> (js_error + response) \<times> store" where
  "try_block e req st =
    (case auth_user e of
       None \<Rightarrow> (Inr \<lparr>status = 401, resp_body = TextBody ''Unauthorized''\<rparr>, st)
     | Some uid \<Rightarrow>
         if \<not> truthy (AIML_API_KEY e)
         then (Inl (Error ''AI/ML API key not configured''), st)
         else
           (case call_provider (fetch_outcome e) of
              Inl err \<Rightarrow> (Inl err, st)
            | Inr aiResponse \<Rightarrow>
                (case resolve_chat e uid (body req) st of
                   (Inl err, st1) \<Rightarrow> (Inl err, st1)
                 | (Inr currentChatId, st1) \<Rightarrow>
                     save_messages e (body req) currentChatId aiResponse st1)))"

text \<open>The \<open>catch\<close> block, lines 192 to 219.\<close>

definition catch_block :: "js_error \<Rightarrow> response" where
  "catch_block err =
    (if name err = ''AbortError''
     then \<lparr>status = 408, resp_body = JsonError ''Request timeout'' (message err)\<rparr>
     else if str_includes (message err) ''AI/ML API error''
     then \<lparr>status = 502, resp_body = JsonError ''AI service unavailable'' (message err)\<rparr>
     else if str_includes (message err) ''Invalid AI response''
           \<or> str_includes (message err) ''Empty AI response''
     then \<lparr>status = 502, resp_body = JsonError ''Invalid AI response'' (message err)\<rparr>
     else \<lparr>status = 500, resp_body = JsonError ''Internal server error'' (message err)\<rparr>)"

text \<open>The handler: the response and the store after the invocation.\<close>

definition serve :: "env \<Rightarrow> request \<Rightarrow> store \<Rightarrow> response \<times> store" where
  "serve e req st =
    (if req_method req = ''OPTIONS'' then (\<lparr>status = 200, resp_body = NoBody\<rparr>, st)
     else
       (case try_block e req st of
          (Inl err, st1) \<Rightarrow> (catch_block err, st1)
        | (Inr r, st1) \<Rightarrow> (r, st1)))"

section \<open>The chat transcript controller (ChatInterface.handleSubmit)\<close>

record Message =
  m_role :: role
  m_content :: string
  m_timestamp :: nat

text \<open>The component state; \<open>toasts\<close> and \<open>notified\<close> record the calls of \<open>toast\<close> and
  \<open>onNewChat\<close>.\<close>

record chat_state =
  st_messages :: "Message list"
  input :: string
  isLoading :: bool
  toasts :: "string list"
  notified :: "(string \<times> string) list"

text \<open>The \<open>data\<close> of the relay's answer as the client reads it.\<close>

record relay_data =
  data_response :: "string option"
  data_chatId :: "string option"

text \<open>
  The outcome of \<open>Promise.race([requestPromise, timeoutPromise])\<close>: the 30 second timer
  rejects first, or \<open>invoke\<close> resolves to \<open>{ data, error }\<close>.
\<close>

datatype race_result =
  RaceTimeout
| RaceInvoke "relay_data option" "js_error option"

text \<open>\<open>content.slice(0, 50) + (content.length > 50 ? '...' : '')\<close>, lines 352 and 374.\<close>

definition client_title :: "string \<Rightarrow> string" where
  "client_title c = take 50 c @ (if length c > 50 then ''...'' else [])"

text \<open>Lines 342 to 376, on the state at the end of the \<open>await\<close>; \<open>t2\<close> is the second \<open>new Date()\<close>.\<close>

definition try_submit ::
  "string option \<Rightarrow> string \<Rightarrow> nat \<Rightarrow> race_result \<Rightarrow> chat_state \<Rightarrow> js_error + chat_state" where
  "try_submit cid c t2 outcome st =
    (case outcome of
       RaceTimeout \<Rightarrow> Inl (Error ''Request timeout'')
     | RaceInvoke data err \<Rightarrow>
        (case err of
           Some e \<Rightarrow> Inl e
         | None \<Rightarrow>
            (case data of
               None \<Rightarrow> Inl (Error ''Invalid response from AI service'')
             | Some d \<Rightarrow>
                (case data_response d of
                   None \<Rightarrow> Inl (Error ''Invalid response from AI service'')
                 | Some r \<Rightarrow>
                     if r = [] then Inl (Error ''Invalid response from AI service'')
                     else
                       (let st2 = st\<lparr>st_messages := st_messages st @
                              [\<lparr>m_role = Assistant, m_content = r, m_timestamp = t2\<rparr>]\<rparr>
                        in if \<not> truthy cid \<and> truthy (data_chatId d)
                           then Inr (st2\<lparr>notified := notified st2 @
                                  [(to_string (data_chatId d), client_title c)]\<rparr>)
                           else Inr st2)))))"

text \<open>Lines 377 to 395: the \<open>catch\<close> block.\<close>

definition catch_submit :: "js_error \<Rightarrow> chat_state \<Rightarrow> chat_state" where
  "catch_submit err st =
    st\<lparr>st_messages := butlast (st_messages st),
       toasts := toasts st @
         [if message err = ''Request timeout''
          then ''Request timed out. Please check your connection and try again.''
          else if str_includes (message err) ''Invalid response''
          then ''Received invalid response from AI service. Please try again.''
          else ''Failed to send message. Please try again.'']\<rparr>"

text \<open>
  The effect of lines 324 to 326, \<open>setMessages(initialMessages)\<close>, runs whenever the
  parent passes a new \<open>initialMessages\<close> (a chat is selected or a new chat is started
  in the sidebar). \<open>during\<close> is the list it installs while the call is awaited, or
  \<open>None\<close> when the property does not change in that time.
\<close>

definition effect_initialMessages :: "Message list option \<Rightarrow> chat_state \<Rightarrow> chat_state" where
  "effect_initialMessages during st =
    (case during of None \<Rightarrow> st | Some ms \<Rightarrow> st\<lparr>st_messages := ms\<rparr>)"

text \<open>
  \<open>handleSubmit\<close>, lines 328 to 399; \<open>t1\<close> is the first \<open>new Date()\<close>. The updaters
  after the \<open>await\<close> are functional (\<open>prev => ...\<close>) and so apply to the transcript
  as it is then, after the effect if it ran.
\<close>

definition handleSubmit ::
  "string option \<Rightarrow> string option \<Rightarrow> nat \<Rightarrow> nat \<Rightarrow> Message list option \<Rightarrow>
     race_result \<Rightarrow> chat_state \<Rightarrow> chat_state" where
  "handleSubmit cid messageContent t1 t2 during outcome st =
    (let c = js_or messageContent (trim (input st)) in
     if c = [] \<or> isLoading st then st
     else
       (let userMessage = \<lparr>m_role = User, m_content = c, m_timestamp = t1\<rparr>;
            st1 = st\<lparr>st_messages := st_messages st @ [userMessage],
                     input := [], isLoading := True\<rparr>;
            st1' = effect_initialMessages during st1
        in (case try_submit cid c t2 outcome st1' of
              Inl err \<Rightarrow> (catch_submit err st1')\<lparr>isLoading := False\<rparr>
            | Inr st2 \<Rightarrow> st2\<lparr>isLoading := False\<rparr>)))"

section \<open>The conversation list controller (ResearchSidebar.formatDate)\<close>

text \<open>
  The result is a fixed text or \<open>date.toLocaleDateString()\<close>, which depends on the
  locale and is kept symbolic. \<open>now\<close> and \<open>date\<close> are the two \<open>getTime()\<close> values
  in milliseconds; the date string is taken to parse.
\<close>

datatype date_label =
  Label string
| LocaleDateString int

definition diffDays :: "int \<Rightarrow> int \<Rightarrow> int" where
  "diffDays now date = \<lceil>real_of_int \<bar>now - date\<bar> / (1000 * 60 * 60 * 24)\<rceil>"

definition formatDate :: "int \<Rightarrow> int \<Rightarrow> date_label" where
  "formatDate now date =
    (let d = diffDays now date in
     if d = 1 then Label ''Today''
     else if d = 2 then Label ''Yesterday''
     else if d \<le> 7 then Label (show_nat (nat d) @ '' days ago'')
     else LocaleDateString date)"

section \<open>Notions of the specification\<close>



text \<open>The two errors that the checks of lines 127 to 135 throw themselves.\<close>

definition is_validation_error :: "js_error \<Rightarrow> bool" where
  "is_validation_error err =
    (err = Error ''Invalid AI response format'' \<or> err = Error ''Empty AI response'')"


text \<open>The status of a response and the \<open>error\<close> field of its body, if it has one.\<close>

definition error_field :: "response_body \<Rightarrow> string option" where
  "error_field b = (case b of JsonError err d \<Rightarrow> Some err | _ \<Rightarrow> None)"





section \<open>Sample inputs\<close>

definition reply_payload :: "string \<Rightarrow> body_result" where
  "reply_payload r =
    JsonValue (JObject [(''choices'',
      JArray [JObject [(''message'', JObject [(''content'', JString r)])]])])"

definition sample_env :: env where
  "sample_env =
    \<lparr>auth_user = Some ''u1'', AIML_API_KEY = Some ''key'',
     fetch_outcome = HttpResponse 200 (reply_payload ''Hello''),
     chat_insert = Some ''c1'',
     user_message_insert_ok = True, ai_message_insert_ok = True\<rparr>"

definition sample_body :: RequestBody where
  "sample_body = \<lparr>messages = [\<lparr>role = User, content = ''Hi''\<rparr>], chatId = None, title = None\<rparr>"

definition sample_request :: request where
  "sample_request = \<lparr>req_method = ''POST'', body = sample_body\<rparr>"

definition empty_store :: store where
  "empty_store = \<lparr>chats = [], message_rows = []\<rparr>"

definition sample_state :: chat_state where
  "sample_state =
    \<lparr>st_messages =
       [\<lparr>m_role = User, m_content = ''Hi'', m_timestamp = 1\<rparr>,
        \<lparr>m_role = Assistant, m_content = ''Hello'', m_timestamp = 2\<rparr>],
     input = '' What is CRISPR? '', isLoading = False, toasts = [], notified = []\<rparr>"

section \<open>Auxiliary facts\<close>


lemma trim_empty_iff: "length (trim s) = 0 \<longleftrightarrow> list_all is_space s"
proof -
  have "dropWhile is_space (rev (dropWhile is_space s)) = [] \<longleftrightarrow> dropWhile is_space s = []"
  proof
    assume a: "dropWhile is_space (rev (dropWhile is_space s)) = []"
    show "dropWhile is_space s = []"
    proof (cases "dropWhile is_space s")
      case Nil then show ?thesis .
    next
      case (Cons x xs)
      then have "\<not> is_space x" using hd_dropWhile[of is_space s] by auto
      moreover have "x \<in> set (rev (dropWhile is_space s))" using Cons by simp
      ultimately show ?thesis using a by (simp del: set_rev)
    qed
  next
    assume "dropWhile is_space s = []"
    then show "dropWhile is_space (rev (dropWhile is_space s)) = []"
      by (auto dest: set_dropWhileD)
  qed
  then show ?thesis by (simp add: trim_def list_all_iff)
qed

lemma check_content_Inl:
  assumes "check_content v = Inl err"
  shows "is_validation_error err \<or> name err = ''TypeError''"
proof (cases v)
  case None
  with assms show ?thesis by (auto simp: check_content_def is_validation_error_def)
next
  case (Some j)
  with assms show ?thesis
    by (cases j) (auto simp: check_content_def is_validation_error_def TypeError_def
        split: if_splits)
qed

lemma check_content_Inr:
  assumes "check_content v = Inr s"
  shows "v = Some (JString s) \<and> length (trim s) \<noteq> 0"
proof (cases v)
  case None
  with assms show ?thesis by (simp add: check_content_def)
next
  case (Some j)
  with assms show ?thesis
    by (cases j) (auto simp: check_content_def split: if_splits)
qed

lemma validate_Inl:
  assumes "validate data = Inl err"
  shows "is_validation_error err \<or> name err = ''TypeError''"
proof (cases "data = JNull")
  case True
  with assms show ?thesis by (auto simp: validate_def TypeError_def)
next
  case False
  with assms have
    "err = Error ''Invalid AI response format'' \<or>
     (\<exists>v. check_content v = Inl err)"
    unfolding validate_def Let_def by (auto split: if_splits)
  then show ?thesis
    using check_content_Inl by (auto simp: is_validation_error_def)
qed

lemma validate_Inr:
  assumes "validate data = Inr s"
  shows "s \<noteq> [] \<and> \<not> list_all is_space s"
proof -
  from assms obtain v where "check_content v = Inr s"
    unfolding validate_def Let_def by (auto split: if_splits)
  then have "length (trim s) \<noteq> 0"
    using check_content_Inr by blast
  then show ?thesis
    using trim_empty_iff [of s] by (auto simp: trim_def)
qed

lemma catch_validation_error:
  "is_validation_error err \<Longrightarrow>
   catch_block err = \<lparr>status = 502, resp_body = JsonError ''Invalid AI response'' (message err)\<rparr>"
  by (auto simp: is_validation_error_def catch_block_def Error_def)


lemma catch_abort:
  "name err = ''AbortError'' \<Longrightarrow>
   catch_block err = \<lparr>status = 408, resp_body = JsonError ''Request timeout'' (message err)\<rparr>"
  by (simp add: catch_block_def)


lemma catch_invalid:
  "catch_block (Error ''Invalid AI response format'') =
     \<lparr>status = 502, resp_body = JsonError ''Invalid AI response'' ''Invalid AI response format''\<rparr>"
  by (simp add: catch_block_def Error_def)

lemma catch_empty:
  "catch_block (Error ''Empty AI response'') =
     \<lparr>status = 502, resp_body = JsonError ''Invalid AI response'' ''Empty AI response''\<rparr>"
  by (simp add: catch_block_def Error_def)


lemma catch_save_user:
  "catch_block (Error ''Failed to save user message'') =
     \<lparr>status = 500, resp_body = JsonError ''Internal server error'' ''Failed to save user message''\<rparr>"
  by (simp add: catch_block_def Error_def)

lemma catch_save_ai:
  "catch_block (Error ''Failed to save AI response'') =
     \<lparr>status = 500, resp_body = JsonError ''Internal server error'' ''Failed to save AI response''\<rparr>"
  by (simp add: catch_block_def Error_def)

lemma catch_type_error:
  "catch_block TypeError_content =
     \<lparr>status = 500, resp_body = JsonError ''Internal server error'' (message TypeError_content)\<rparr>"
  by (simp add: catch_block_def TypeError_content_def)

subsection \<open>The paths of the handler\<close>



lemma serve_provider_error:
  assumes "req_method req \<noteq> ''OPTIONS''" and "auth_user e = Some uid"
    and "truthy (AIML_API_KEY e)" and "call_provider (fetch_outcome e) = Inl err"
  shows "serve e req st = (catch_block err, st)"
  using assms by (simp add: serve_def try_block_def)


lemma serve_save_error:
  assumes "req_method req \<noteq> ''OPTIONS''" and "auth_user e = Some uid"
    and "truthy (AIML_API_KEY e)" and "call_provider (fetch_outcome e) = Inr aiResponse"
    and "resolve_chat e uid (body req) st = (Inr cid, st1)"
    and "save_messages e (body req) cid aiResponse st1 = (Inl err, st2)"
  shows "serve e req st = (catch_block err, st2)"
  using assms by (simp add: serve_def try_block_def)

lemma serve_success:
  assumes "req_method req \<noteq> ''OPTIONS''" and "auth_user e = Some uid"
    and "truthy (AIML_API_KEY e)" and "call_provider (fetch_outcome e) = Inr aiResponse"
    and "resolve_chat e uid (body req) st = (Inr cid, st1)"
    and "save_messages e (body req) cid aiResponse st1 = (Inr r, st2)"
  shows "serve e req st = (r, st2)"
  using assms by (simp add: serve_def try_block_def)

lemma call_provider_ok:
  "response_ok code \<Longrightarrow> call_provider (HttpResponse code (JsonValue data)) = validate data"
  by (simp add: call_provider_def)

text \<open>The definitions that evaluate the handler on a concrete input.\<close>

lemmas relay_eval =
  serve_def try_block_def call_provider_def validate_def check_content_def trim_def
  catch_block_def Error_def TypeError_def SyntaxError_def Let_def
  resolve_chat_def create_chat_def save_messages_def insert_message_def chatTitle_def
  first_content_def js_or_def to_string_def truthy_def response_ok_def is_space_def
  sample_env_def sample_request_def sample_body_def reply_payload_def empty_store_def
  TypeError_content_def

section \<open>Provider failures\<close>

text \<open>
  Claim C5. When the call of the completion provider is aborted by the server-side
  timer (the \<open>fetch\<close> promise rejects with an \<open>AbortError\<close>), the relay answers
  with status 408 and leaves the store as it was: no chat row and no message row is
  created.
\<close>

theorem provider_timeout_408_no_rows:
  assumes "req_method req \<noteq> ''OPTIONS''"
    and "auth_user e = Some uid"
    and "truthy (AIML_API_KEY e)"
    and "fetch_outcome e = FetchRejects err"
    and "name err = ''AbortError''"
  shows "serve e req st =
           (\<lparr>status = 408, resp_body = JsonError ''Request timeout'' (message err)\<rparr>, st)"
proof -
  have "call_provider (fetch_outcome e) = Inl err"
    using assms(4) by (simp add: call_provider_def)
  then have "serve e req st = (catch_block err, st)"
    using assms(1-3) by (rule serve_provider_error [rotated 3])
  then show ?thesis
    using assms(5) by (simp add: catch_abort)
qed

theorem provider_timeout_408_no_rows_witness:
  "serve (sample_env\<lparr>fetch_outcome :=
            FetchRejects \<lparr>name = ''AbortError'', message = ''The signal has been aborted''\<rparr>\<rparr>)
      sample_request empty_store =
     (\<lparr>status = 408, resp_body = JsonError ''Request timeout'' ''The signal has been aborted''\<rparr>,
      empty_store)"
  using provider_timeout_408_no_rows
    [of sample_request
        "sample_env\<lparr>fetch_outcome :=
           FetchRejects \<lparr>name = ''AbortError'', message = ''The signal has been aborted''\<rparr>\<rparr>"
        "''u1''" "\<lparr>name = ''AbortError'', message = ''The signal has been aborted''\<rparr>"
        empty_store]
  by (simp add: sample_env_def sample_request_def truthy_def)

text \<open>
  Claim C6. A success answer whose body is the JSON value \<open>null\<close> holds no completion
  choice. The handler throws a TypeError on reading \<open>data.choices\<close>, and the relay
  answers with status 500 and the error \<open>Internal server error\<close>, not with 502; the
  store is left as it was.
\<close>

theorem null_payload_gives_500:
  "serve (sample_env\<lparr>fetch_outcome := HttpResponse 200 (JsonValue JNull)\<rparr>)
      sample_request empty_store =
     (\<lparr>status = 500,
       resp_body = JsonError ''Internal server error''
         ''Cannot read properties of null (reading 'choices')''\<rparr>,
      empty_store)"
  by (simp add: relay_eval)

text \<open>
  The same default answer for a content that is a number, on which \<open>trim\<close> is not a
  function, and for a body that does not parse, unless the text of the parse error
  holds one of the texts that the \<open>catch\<close> block looks for.
\<close>

lemma number_content_gives_500:
  "serve (sample_env\<lparr>fetch_outcome := HttpResponse 200 (JsonValue
        (JObject [(''choices'',
           JArray [JObject [(''message'', JObject [(''content'', JNumber 5)])]])]))\<rparr>)
      sample_request empty_store =
     (\<lparr>status = 500,
       resp_body = JsonError ''Internal server error'' ''aiResponse.trim is not a function''\<rparr>,
      empty_store)"
  by (simp add: relay_eval)

lemma unparsed_body_gives_500:
  "serve (sample_env\<lparr>fetch_outcome :=
        HttpResponse 200 (JsonRejects ''Unexpected end of JSON input'')\<rparr>)
      sample_request empty_store =
     (\<lparr>status = 500,
       resp_body = JsonError ''Internal server error'' ''Unexpected end of JSON input''\<rparr>,
      empty_store)"
  by (simp add: relay_eval)

text \<open>
  The payloads that the checks of lines 127 to 135 reject themselves give status 502,
  and no failure of the provider call writes a row.
\<close>

lemma rejected_payload_502_no_rows:
  assumes "req_method req \<noteq> ''OPTIONS''"
    and "auth_user e = Some uid"
    and "truthy (AIML_API_KEY e)"
    and "call_provider (fetch_outcome e) = Inl err"
    and "is_validation_error err"
  shows "serve e req st =
           (\<lparr>status = 502, resp_body = JsonError ''Invalid AI response'' (message err)\<rparr>, st)"
  using serve_provider_error [OF assms(1-4)] catch_validation_error [OF assms(5)]
  by simp

lemma blank_content_502:
  "serve (sample_env\<lparr>fetch_outcome := HttpResponse 200 (reply_payload ''  '')\<rparr>)
      sample_request empty_store =
     (\<lparr>status = 502, resp_body = JsonError ''Invalid AI response'' ''Empty AI response''\<rparr>,
      empty_store)"
  by (simp add: relay_eval)

subsection \<open>Resolving the chat and saving the two messages\<close>

lemma resolve_chat_reuse:
  "chatId rb = Some c \<Longrightarrow> c \<noteq> [] \<Longrightarrow> resolve_chat e uid rb st = (Inr c, st)"
  by (simp add: resolve_chat_def)

lemma resolve_chat_create:
  "\<not> truthy (chatId rb) \<Longrightarrow> resolve_chat e uid rb st = create_chat e uid rb st"
  by (cases "chatId rb") (simp_all add: resolve_chat_def truthy_def)

lemma create_chat_inserted:
  "chat_insert e = Some cid \<Longrightarrow>
   create_chat e uid rb st =
     (Inr cid,
      \<lparr>chats = chats st @
         [\<lparr>chat_id = cid, user_id = uid, chat_title = chatTitle (title rb) (messages rb)\<rparr>],
       message_rows = message_rows st\<rparr>)"
  by (simp add: create_chat_def)

lemma create_chat_failed:
  "chat_insert e = None \<Longrightarrow>
   create_chat e uid rb st = (Inl (Error ''Failed to create chat''), st)"
  by (simp add: create_chat_def)

lemma resolve_chat_Inr:
  assumes "resolve_chat e uid rb st = (Inr cid, st1)"
  shows "st1 =
    \<lparr>chats =
       (if truthy (chatId rb) then chats st
        else chats st @
          [\<lparr>chat_id = cid, user_id = uid, chat_title = chatTitle (title rb) (messages rb)\<rparr>]),
     message_rows = message_rows st\<rparr>"
proof (cases "truthy (chatId rb)")
  case True
  then obtain c where "chatId rb = Some c" "c \<noteq> []"
    by (auto simp: truthy_def split: option.splits)
  with assms True show ?thesis by (simp add: resolve_chat_reuse)
next
  case False
  with assms have cc: "create_chat e uid rb st = (Inr cid, st1)"
    by (simp add: resolve_chat_create)
  then obtain new_id where "chat_insert e = Some new_id"
    by (cases "chat_insert e") (simp_all add: create_chat_failed)
  with cc False show ?thesis by (auto simp: create_chat_inserted)
qed


lemma resolve_chat_succeeds:
  assumes "truthy (chatId rb) \<or> chat_insert e \<noteq> None"
  shows "\<exists>cid st1. resolve_chat e uid rb st = (Inr cid, st1)"
  using assms
  by (auto simp: resolve_chat_def create_chat_def truthy_def split: option.splits)

lemma save_messages_empty:
  "messages rb = [] \<Longrightarrow> save_messages e rb cid ai st = (Inl TypeError_content, st)"
  by (simp add: save_messages_def)

lemma save_messages_user_fails:
  "messages rb \<noteq> [] \<Longrightarrow> \<not> user_message_insert_ok e \<Longrightarrow>
   save_messages e rb cid ai st = (Inl (Error ''Failed to save user message''), st)"
  by (simp add: save_messages_def)

lemma save_messages_ai_fails:
  "messages rb \<noteq> [] \<Longrightarrow> user_message_insert_ok e \<Longrightarrow> \<not> ai_message_insert_ok e \<Longrightarrow>
   save_messages e rb cid ai st =
     (Inl (Error ''Failed to save AI response''),
      \<lparr>chats = chats st,
       message_rows = message_rows st @
         [\<lparr>msg_chat_id = cid, msg_role = User, msg_text = content (last (messages rb))\<rparr>]\<rparr>)"
  by (simp add: save_messages_def insert_message_def)

lemma save_messages_both:
  "messages rb \<noteq> [] \<Longrightarrow> user_message_insert_ok e \<Longrightarrow> ai_message_insert_ok e \<Longrightarrow>
   save_messages e rb cid ai st =
     (Inr \<lparr>status = 200, resp_body = JsonReply ai cid\<rparr>,
      \<lparr>chats = chats st,
       message_rows = message_rows st @
         [\<lparr>msg_chat_id = cid, msg_role = User, msg_text = content (last (messages rb))\<rparr>,
          \<lparr>msg_chat_id = cid, msg_role = Assistant, msg_text = ai\<rparr>]\<rparr>)"
  by (simp add: save_messages_def insert_message_def)

section \<open>Persistence failures\<close>

text \<open>
  Claim C1. In an invocation that reaches the two message writes (the caller is
  authenticated, the key is configured, the provider gave a valid reply and the chat is
  resolved), either both inserts succeed, the user row and the assistant row are
  written one after the other and the reply is returned, or one of the inserts fails
  and the relay answers with status 500 and an error body that does not hold the
  reply, although the reply was already generated.
\<close>

theorem message_write_failure_reported:
  assumes "req_method req \<noteq> ''OPTIONS''"
    and "auth_user e = Some uid"
    and "truthy (AIML_API_KEY e)"
    and "call_provider (fetch_outcome e) = Inr aiResponse"
    and "resolve_chat e uid (body req) st = (Inr cid, st1)"
    and "messages (body req) \<noteq> []"
  shows "if user_message_insert_ok e \<and> ai_message_insert_ok e
         then serve e req st =
                (\<lparr>status = 200, resp_body = JsonReply aiResponse cid\<rparr>,
                 \<lparr>chats = chats st1,
                  message_rows = message_rows st1 @
                    [\<lparr>msg_chat_id = cid, msg_role = User,
                      msg_text = content (last (messages (body req)))\<rparr>,
                     \<lparr>msg_chat_id = cid, msg_role = Assistant, msg_text = aiResponse\<rparr>]\<rparr>)
         else fst (serve e req st) =
                \<lparr>status = 500,
                 resp_body = JsonError ''Internal server error''
                   (if user_message_insert_ok e then ''Failed to save AI response''
                    else ''Failed to save user message'')\<rparr>"
proof (cases "user_message_insert_ok e")
  case False
  have "save_messages e (body req) cid aiResponse st1 =
          (Inl (Error ''Failed to save user message''), st1)"
    using assms(6) False by (rule save_messages_user_fails)
  with assms(1-5) have "serve e req st = (catch_block (Error ''Failed to save user message''), st1)"
    by (rule serve_save_error)
  with False show ?thesis by (simp add: catch_save_user)
next
  case u: True
  show ?thesis
  proof (cases "ai_message_insert_ok e")
    case False
    note sv = save_messages_ai_fails [OF assms(6) u False, of cid aiResponse st1]
    have "serve e req st =
            (catch_block (Error ''Failed to save AI response''),
             \<lparr>chats = chats st1,
              message_rows = message_rows st1 @
                [\<lparr>msg_chat_id = cid, msg_role = User,
                  msg_text = content (last (messages (body req)))\<rparr>]\<rparr>)"
      using assms(1-5) sv by (rule serve_save_error)
    with u False show ?thesis by (simp add: catch_save_ai)
  next
    case True
    note sv = save_messages_both [OF assms(6) u True, of cid aiResponse st1]
    have "serve e req st =
            (\<lparr>status = 200, resp_body = JsonReply aiResponse cid\<rparr>,
             \<lparr>chats = chats st1,
              message_rows = message_rows st1 @
                [\<lparr>msg_chat_id = cid, msg_role = User,
                  msg_text = content (last (messages (body req)))\<rparr>,
                 \<lparr>msg_chat_id = cid, msg_role = Assistant, msg_text = aiResponse\<rparr>]\<rparr>)"
      using assms(1-5) sv by (rule serve_success)
    with u True show ?thesis by simp
  qed
qed

theorem message_write_failure_reported_witness:
  "fst (serve (sample_env\<lparr>ai_message_insert_ok := False\<rparr>) sample_request empty_store) =
     \<lparr>status = 500,
      resp_body = JsonError ''Internal server error'' ''Failed to save AI response''\<rparr>"
  using message_write_failure_reported
    [of sample_request "sample_env\<lparr>ai_message_insert_ok := False\<rparr>" "''u1''" "''Hello''"
        empty_store "''c1''"
        "\<lparr>chats = [\<lparr>chat_id = ''c1'', user_id = ''u1'', chat_title = ''Hi...''\<rparr>],
          message_rows = []\<rparr>"]
  by (simp add: relay_eval)

text \<open>
  Claim C9. When the insert of the assistant message fails after the insert of the
  user message succeeded, the relay answers with status 500 and deletes nothing: the
  store returned holds the user message row, and the chat row when the invocation
  created one.
\<close>

theorem no_rollback_after_assistant_failure:
  assumes "req_method req \<noteq> ''OPTIONS''"
    and "auth_user e = Some uid"
    and "truthy (AIML_API_KEY e)"
    and "call_provider (fetch_outcome e) = Inr aiResponse"
    and "resolve_chat e uid (body req) st = (Inr cid, st1)"
    and "messages (body req) \<noteq> []"
    and "user_message_insert_ok e"
    and "\<not> ai_message_insert_ok e"
  shows "serve e req st =
     (\<lparr>status = 500,
       resp_body = JsonError ''Internal server error'' ''Failed to save AI response''\<rparr>,
      \<lparr>chats =
         (if truthy (chatId (body req)) then chats st
          else chats st @
            [\<lparr>chat_id = cid, user_id = uid,
              chat_title = chatTitle (title (body req)) (messages (body req))\<rparr>]),
       message_rows = message_rows st @
         [\<lparr>msg_chat_id = cid, msg_role = User,
           msg_text = content (last (messages (body req)))\<rparr>]\<rparr>)"
proof -
  note sv = save_messages_ai_fails [OF assms(6-8), of cid aiResponse st1]
  have "serve e req st =
          (catch_block (Error ''Failed to save AI response''),
           \<lparr>chats = chats st1,
            message_rows = message_rows st1 @
              [\<lparr>msg_chat_id = cid, msg_role = User,
                msg_text = content (last (messages (body req)))\<rparr>]\<rparr>)"
    using assms(1-5) sv by (rule serve_save_error)
  moreover have "chats st1 =
      (if truthy (chatId (body req)) then chats st
       else chats st @
         [\<lparr>chat_id = cid, user_id = uid,
           chat_title = chatTitle (title (body req)) (messages (body req))\<rparr>])"
    and "message_rows st1 = message_rows st"
    using resolve_chat_Inr [OF assms(5)] by simp_all
  ultimately show ?thesis by (simp add: catch_save_ai)
qed

theorem no_rollback_after_assistant_failure_witness:
  "serve (sample_env\<lparr>ai_message_insert_ok := False\<rparr>) sample_request empty_store =
     (\<lparr>status = 500,
       resp_body = JsonError ''Internal server error'' ''Failed to save AI response''\<rparr>,
      \<lparr>chats = [\<lparr>chat_id = ''c1'', user_id = ''u1'', chat_title = ''Hi...''\<rparr>],
       message_rows = [\<lparr>msg_chat_id = ''c1'', msg_role = User, msg_text = ''Hi''\<rparr>]\<rparr>)"
  using no_rollback_after_assistant_failure
    [of sample_request "sample_env\<lparr>ai_message_insert_ok := False\<rparr>" "''u1''" "''Hello''"
        empty_store "''c1''"
        "\<lparr>chats = [\<lparr>chat_id = ''c1'', user_id = ''u1'', chat_title = ''Hi...''\<rparr>],
          message_rows = []\<rparr>"]
  by (simp add: relay_eval)

text \<open>
  Claim C10. The relay does not check that the message list is non-empty. For an
  authenticated request with the key configured, no chat id, no title, an empty message
  list and a valid provider reply, where the chat insert succeeds, it inserts a chat
  row with the title \<open>undefined...\<close>, which is not the fallback text, then throws on
  reading the content of the last message and answers with status 500; the returned
  store holds the new chat row and no new message row.
\<close>

theorem empty_messages_orphan_chat:
  assumes "req_method req \<noteq> ''OPTIONS''"
    and "auth_user e = Some uid"
    and "truthy (AIML_API_KEY e)"
    and "call_provider (fetch_outcome e) = Inr aiResponse"
    and "\<not> truthy (chatId (body req))"
    and "\<not> truthy (title (body req))"
    and "messages (body req) = []"
    and "chat_insert e = Some cid"
  shows "serve e req st =
     (\<lparr>status = 500,
       resp_body = JsonError ''Internal server error''
         ''Cannot read properties of undefined (reading 'content')''\<rparr>,
      \<lparr>chats = chats st @
         [\<lparr>chat_id = cid, user_id = uid, chat_title = ''undefined...''\<rparr>],
       message_rows = message_rows st\<rparr>)
     \<and> ''undefined...'' \<noteq> ''New Research Chat''"
proof -
  have t: "chatTitle (title (body req)) (messages (body req)) = ''undefined...''"
    using assms(6,7)
    by (cases "title (body req)")
       (simp_all add: chatTitle_def js_or_def to_string_def first_content_def truthy_def)
  have "resolve_chat e uid (body req) st =
          (Inr cid,
           \<lparr>chats = chats st @
              [\<lparr>chat_id = cid, user_id = uid, chat_title = ''undefined...''\<rparr>],
            message_rows = message_rows st\<rparr>)" (is "_ = (_, ?st1)")
    using assms(5,8) t by (simp add: resolve_chat_create create_chat_inserted)
  moreover have "save_messages e (body req) cid aiResponse ?st1 = (Inl TypeError_content, ?st1)"
    using assms(7) by (rule save_messages_empty)
  ultimately have "serve e req st = (catch_block TypeError_content, ?st1)"
    using assms(1-4) by (simp add: serve_save_error)
  then have "serve e req st =
      (\<lparr>status = 500,
        resp_body = JsonError ''Internal server error'' (message TypeError_content)\<rparr>, ?st1)"
    by (simp only: catch_type_error)
  then show ?thesis
    by (simp add: TypeError_content_def)
qed

theorem empty_messages_orphan_chat_witness:
  "serve sample_env (sample_request\<lparr>body := sample_body\<lparr>messages := []\<rparr>\<rparr>) empty_store =
     (\<lparr>status = 500,
       resp_body = JsonError ''Internal server error''
         ''Cannot read properties of undefined (reading 'content')''\<rparr>,
      \<lparr>chats = [\<lparr>chat_id = ''c1'', user_id = ''u1'', chat_title = ''undefined...''\<rparr>],
       message_rows = []\<rparr>)"
  using empty_messages_orphan_chat
    [of "sample_request\<lparr>body := sample_body\<lparr>messages := []\<rparr>\<rparr>" sample_env "''u1''"
        "''Hello''" "''c1''" empty_store]
  by (simp add: relay_eval)

section \<open>The title of a new chat\<close>

text \<open>
  Claim C2. For the request with no chat id, no title and the single user message
  \<open>Hi\<close>, the relay creates the chat row with the title \<open>Hi...\<close>: the three dots are
  appended to a message of two characters.
\<close>

theorem short_message_title_gets_dots:
  "serve sample_env sample_request empty_store =
     (\<lparr>status = 200, resp_body = JsonReply ''Hello'' ''c1''\<rparr>,
      \<lparr>chats = [\<lparr>chat_id = ''c1'', user_id = ''u1'', chat_title = ''Hi...''\<rparr>],
       message_rows =
         [\<lparr>msg_chat_id = ''c1'', msg_role = User, msg_text = ''Hi''\<rparr>,
          \<lparr>msg_chat_id = ''c1'', msg_role = Assistant, msg_text = ''Hello''\<rparr>]\<rparr>)"
  by (simp add: relay_eval)

text \<open>
  For every request without a usable title the three dots end the title, so the
  fallback text after the second \<open>||\<close> is never chosen.
\<close>

lemma chatTitle_without_title:
  "\<not> truthy t \<Longrightarrow> chatTitle t ms = to_string (first_content ms) @ ''...''"
  by (cases t) (simp_all add: chatTitle_def js_or_def truthy_def)

lemma chatTitle_with_title:
  "t \<noteq> [] \<Longrightarrow> chatTitle (Some t) ms = t"
  by (simp add: chatTitle_def js_or_def)

section \<open>The shape of the responses\<close>

lemma catch_block_shape:
  "status (catch_block err) \<in> {408, 500, 502} \<and>
   (\<exists>m. resp_body (catch_block err) = JsonError m (message err))"
  by (simp add: catch_block_def)

lemma save_messages_Inr:
  "save_messages e rb cid ai st = (Inr r, st2) \<Longrightarrow>
   r = \<lparr>status = 200, resp_body = JsonReply ai cid\<rparr>"
  by (auto simp: save_messages_def Let_def split: if_splits)

lemma try_block_Inr:
  assumes "try_block e req st = (Inr r, st2)"
  shows "r = \<lparr>status = 401, resp_body = TextBody ''Unauthorized''\<rparr> \<or>
         (\<exists>ai cid. r = \<lparr>status = 200, resp_body = JsonReply ai cid\<rparr>)"
proof (cases "auth_user e")
  case None
  with assms show ?thesis by (simp add: try_block_def)
next
  case (Some uid)
  show ?thesis
  proof (cases "truthy (AIML_API_KEY e)")
    case False
    with assms Some show ?thesis by (simp add: try_block_def)
  next
    case True
    show ?thesis
    proof (cases "call_provider (fetch_outcome e)")
      case (Inl err)
      with assms Some True show ?thesis by (simp add: try_block_def)
    next
      case (Inr ai)
      obtain res st1 where rc: "resolve_chat e uid (body req) st = (res, st1)"
        by (cases "resolve_chat e uid (body req) st")
      show ?thesis
      proof (cases res)
        case (Inl err)
        with assms Some True Inr rc show ?thesis by (simp add: try_block_def)
      next
        case cid: (Inr cid)
        with assms Some True Inr rc
        have "save_messages e (body req) cid ai st1 = (Inr r, st2)"
          by (simp add: try_block_def)
        then show ?thesis by (auto dest: save_messages_Inr)
      qed
    qed
  qed
qed

text \<open>
  Claim C4, as amended. Every response of the relay with a status other than 200 has
  status 401 and the plain text body \<open>Unauthorized\<close>, or a status among 408, 500 and
  502 and a JSON body with the fields \<open>error\<close> and \<open>details\<close>.
\<close>

theorem error_response_shape:
  assumes "status (fst (serve e req st)) \<noteq> 200"
  shows "fst (serve e req st) = \<lparr>status = 401, resp_body = TextBody ''Unauthorized''\<rparr> \<or>
         (status (fst (serve e req st)) \<in> {408, 500, 502} \<and>
          (\<exists>err d. resp_body (fst (serve e req st)) = JsonError err d))"
proof (cases "req_method req = ''OPTIONS''")
  case True
  with assms show ?thesis by (simp add: serve_def)
next
  case False
  obtain res st1 where tb: "try_block e req st = (res, st1)"
    by (cases "try_block e req st")
  show ?thesis
  proof (cases res)
    case (Inl err)
    with False tb have "fst (serve e req st) = catch_block err"
      by (simp add: serve_def)
    with catch_block_shape [of err] show ?thesis by auto
  next
    case (Inr r)
    with False tb have r: "fst (serve e req st) = r"
      by (simp add: serve_def)
    from tb Inr have "try_block e req st = (Inr r, st1)" by simp
    from try_block_Inr [OF this] r assms show ?thesis by auto
  qed
qed

theorem error_response_shape_witness:
  "status (fst (serve (sample_env\<lparr>AIML_API_KEY := None\<rparr>) sample_request empty_store)) = 500 \<and>
   resp_body (fst (serve (sample_env\<lparr>AIML_API_KEY := None\<rparr>) sample_request empty_store)) =
     JsonError ''Internal server error'' ''AI/ML API key not configured''"
  using error_response_shape [of "sample_env\<lparr>AIML_API_KEY := None\<rparr>" sample_request empty_store]
  by (simp add: relay_eval)

theorem unauthorized_body_is_plain_text:
  "fst (serve (sample_env\<lparr>auth_user := None\<rparr>) sample_request empty_store) =
     \<lparr>status = 401, resp_body = TextBody ''Unauthorized''\<rparr> \<and>
   error_field (resp_body (fst (serve (sample_env\<lparr>auth_user := None\<rparr>) sample_request
     empty_store))) = None"
  by (simp add: relay_eval error_field_def)

section \<open>Failure classes and their responses\<close>













section \<open>The optimistic append of the transcript controller\<close>







lemma submit_success_example:
  "st_messages (handleSubmit (Some ''c1'') None 3 4 None
      (RaceInvoke (Some \<lparr>data_response = Some ''It edits genes.'', data_chatId = Some ''c1''\<rparr>)
         None) sample_state) =
     [\<lparr>m_role = User, m_content = ''Hi'', m_timestamp = 1\<rparr>,
      \<lparr>m_role = Assistant, m_content = ''Hello'', m_timestamp = 2\<rparr>,
      \<lparr>m_role = User, m_content = ''What is CRISPR?'', m_timestamp = 3\<rparr>,
      \<lparr>m_role = Assistant, m_content = ''It edits genes.'', m_timestamp = 4\<rparr>]"
  by (simp add: handleSubmit_def try_submit_def sample_state_def js_or_def trim_def
      is_space_def truthy_def effect_initialMessages_def)

section \<open>Relative dates\<close>

lemma diffDays_le_iff: "diffDays now date \<le> k \<longleftrightarrow> \<bar>now - date\<bar> \<le> k * 86400000"
proof -
  have "diffDays now date \<le> k \<longleftrightarrow> real_of_int \<bar>now - date\<bar> / 86400000 \<le> real_of_int k"
    by (simp add: diffDays_def ceiling_le_iff)
  also have "\<dots> \<longleftrightarrow> real_of_int \<bar>now - date\<bar> \<le> real_of_int (k * 86400000)"
    by (simp add: field_simps)
  also have "\<dots> \<longleftrightarrow> \<bar>now - date\<bar> \<le> k * 86400000"
    by (simp only: of_int_le_iff)
  finally show ?thesis .
qed

lemma diffDays_eq_iff:
  "diffDays now date = k \<longleftrightarrow>
     (k - 1) * 86400000 < \<bar>now - date\<bar> \<and> \<bar>now - date\<bar> \<le> k * 86400000"
  using diffDays_le_iff [of now date k] diffDays_le_iff [of now date "k - 1"]
  by linarith

lemma diffDays_nonneg: "0 \<le> diffDays now date"
  using diffDays_le_iff [of now date "-1"] by linarith

lemma diffDays_zero_iff: "diffDays now date = 0 \<longleftrightarrow> now = date"
  using diffDays_eq_iff [of now date 0] by auto

lemma diffDays_whole: "0 \<le> k \<Longrightarrow> diffDays (date + k * 86400000) date = k"
  by (simp add: diffDays_eq_iff)

lemma show_nat_digit: "n < 10 \<Longrightarrow> show_nat n = [digit_char n]"
  by (simp add: show_nat.simps)

text \<open>
  Claim C8, as amended. With \<open>d\<close> the ceiling of the absolute age in days,
  \<open>formatDate\<close> gives \<open>Today\<close> for \<open>d = 1\<close>, \<open>Yesterday\<close> for \<open>d = 2\<close>,
  \<open>d days ago\<close> for every other \<open>d\<close> up to 7, that is for 3 to 7 and for 0, and the
  localized date for \<open>d\<close> above 7. \<open>d\<close> is 0 exactly when the timestamp is the current
  instant. A chat updated exactly 1, 2, 5 and 10 days ago gives \<open>Today\<close>,
  \<open>Yesterday\<close>, \<open>5 days ago\<close> and the localized date.
\<close>

theorem formatDate_by_age:
  "(diffDays now date = 1 \<longrightarrow> formatDate now date = Label ''Today'') \<and>
   (diffDays now date = 2 \<longrightarrow> formatDate now date = Label ''Yesterday'') \<and>
   (3 \<le> diffDays now date \<and> diffDays now date \<le> 7 \<longrightarrow>
      formatDate now date = Label ([digit_char (nat (diffDays now date))] @ '' days ago'')) \<and>
   (diffDays now date = 0 \<longrightarrow> formatDate now date = Label ''0 days ago'') \<and>
   (7 < diffDays now date \<longrightarrow> formatDate now date = LocaleDateString date) \<and>
   (diffDays now date = 0 \<longleftrightarrow> now = date) \<and>
   formatDate (date + 86400000) date = Label ''Today'' \<and>
   formatDate (date + 2 * 86400000) date = Label ''Yesterday'' \<and>
   formatDate (date + 5 * 86400000) date = Label ''5 days ago'' \<and>
   formatDate (date + 10 * 86400000) date = LocaleDateString date"
proof -
  have d1: "diffDays (date + 86400000) date = 1"
    using diffDays_whole [of 1 date] by simp
  have d2: "diffDays (date + 172800000) date = 2"
    using diffDays_whole [of 2 date] by simp
  have d5: "diffDays (date + 432000000) date = 5"
    using diffDays_whole [of 5 date] by simp
  have d10: "diffDays (date + 864000000) date = 10"
    using diffDays_whole [of 10 date] by simp
  have mid: "formatDate now date = Label ([digit_char (nat (diffDays now date))] @ '' days ago'')"
    if "3 \<le> diffDays now date" "diffDays now date \<le> 7"
    using that by (simp add: formatDate_def Let_def show_nat_digit)
  have zero: "formatDate now date = Label ''0 days ago''" if "diffDays now date = 0"
    using that by (simp add: formatDate_def show_nat_digit digit_char_def)
  have "formatDate (date + 5 * 86400000) date = Label ''5 days ago''"
    by (simp add: formatDate_def Let_def d5 show_nat_digit digit_char_def)
  moreover have "formatDate (date + 86400000) date = Label ''Today''"
    by (simp add: formatDate_def Let_def d1)
  moreover have "formatDate (date + 2 * 86400000) date = Label ''Yesterday''"
    by (simp add: formatDate_def Let_def d2)
  moreover have "formatDate (date + 10 * 86400000) date = LocaleDateString date"
    by (simp add: formatDate_def Let_def d10)
  moreover have "diffDays now date = 1 \<longrightarrow> formatDate now date = Label ''Today''"
    by (simp add: formatDate_def)
  moreover have "diffDays now date = 2 \<longrightarrow> formatDate now date = Label ''Yesterday''"
    by (simp add: formatDate_def)
  moreover have "7 < diffDays now date \<longrightarrow> formatDate now date = LocaleDateString date"
    by (simp add: formatDate_def Let_def)
  ultimately show ?thesis
    using mid zero diffDays_zero_iff [of now date] by blast
qed

theorem formatDate_by_age_witness:
  "diffDays 259200005 0 = 4 \<and> formatDate 259200005 0 = Label ''4 days ago''"
proof -
  have d: "diffDays 259200005 0 = 4"
    by (simp add: diffDays_eq_iff)
  with formatDate_by_age [of 259200005 0] show ?thesis
    by (simp add: digit_char_def)
qed

theorem formatDate_same_instant:
  "diffDays 1700000000000 1700000000000 = 0 \<and>
   formatDate 1700000000000 1700000000000 = Label ''0 days ago'' \<and>
   formatDate 1700000000000 1700000000000 \<noteq> LocaleDateString 1700000000000"
  by (simp add: formatDate_def diffDays_def show_nat_digit digit_char_def)

end
